theory Spec2Isabelle
  imports Complex_Main "HOL-Library.AList"
begin

section \<open>Adstock transformations of \<^verbatim>\<open>pymc_marketing/mmm/components/adstock.py\<close>\<close>

text \<open>
  The module is a catalogue of three adstock classes, each with a \<^verbatim>\<open>function\<close> that
  delegates to a routine of \<^verbatim>\<open>pymc_marketing.mmm.transformers\<close>, a table of default
  priors, a registry from names to classes and the helper \<^verbatim>\<open>_get_adstock_function\<close>.

  Values are typed as the annotations of the source type them: \<^verbatim>\<open>l_max: int\<close> is an
  \<open>int\<close>, \<^verbatim>\<open>normalize: bool\<close> a \<open>bool\<close>, \<^verbatim>\<open>amount: float\<close> a value of a type
  \<open>'f\<close> of floats, of which the module uses \<open>0\<close> and \<open>1\<close> only, a \<^verbatim>\<open>dict\<close> an association list in insertion order and
  \<^verbatim>\<open>T | None\<close> a \<open>T option\<close>. Exceptions are values of \<open>error\<close>.
\<close>

subsection \<open>Exceptions and warnings\<close>

text \<open>
  \<open>ValueError\<close> carries its message. \<open>TypeError\<close> is what calling a class raises when
  the keyword arguments do not fit the signature of its \<^verbatim>\<open>__init__\<close>, \<open>IndexError\<close> an
  index out of bounds, \<open>KeyError\<close> a failed dictionary subscript and \<open>MemoryError\<close> an
  array that the memory of the machine does not hold.
\<close>

datatype error = ValueError string | TypeError | IndexError | KeyError string | MemoryError

datatype warning_category = DeprecationWarning

subsection \<open>Names imported from the transformers module\<close>

text \<open>
  Modelled from the spec: the enumerations \<^verbatim>\<open>ConvMode\<close> and \<^verbatim>\<open>WeibullType\<close> are declared in
  \<^verbatim>\<open>pymc_marketing.mmm.transformers\<close>, which is not among the sources. The spec
  describes the first as "whether the decay kernel is applied looking forward or
  backward relative to the time step"; adstock.py names the members \<^verbatim>\<open>ConvMode.After\<close>
  and \<^verbatim>\<open>WeibullType.PDF\<close> and, in a docstring, the kind \<^verbatim>\<open>CDF\<close>.
\<close>

datatype ConvMode = After | Before

datatype WeibullType = PDF | CDF

text \<open>
  The routines \<^verbatim>\<open>geometric_adstock\<close>, \<^verbatim>\<open>delayed_adstock\<close> and \<^verbatim>\<open>weibull_adstock\<close> are
  imported as well. A call of one of them is represented by the call itself: the
  routine and the arguments it receives, in the order in which adstock.py writes them.
  The type \<open>'t\<close> is that of the series and of the parameters (tensors of the framework).
\<close>

datatype 't transformer_call =
    geometric_adstock 't 't int bool ConvMode
      \<comment> \<open>\<^verbatim>\<open>geometric_adstock(x, alpha=, l_max=, normalize=, mode=)\<close>\<close>
  | delayed_adstock 't 't 't int bool ConvMode
      \<comment> \<open>\<^verbatim>\<open>delayed_adstock(x, alpha=, theta=, l_max=, normalize=, mode=)\<close>\<close>
  | weibull_adstock 't 't 't int ConvMode WeibullType
      \<comment> \<open>\<^verbatim>\<open>weibull_adstock(x=, lam=, k=, l_max=, mode=, type=)\<close>\<close>

subsection \<open>Prior descriptors\<close>

text \<open>
  A prior is the dictionary \<^verbatim>\<open>{"dist": family, "kwargs": {name: number, ...}}\<close>; the
  fields \<open>dist_name\<close> and \<open>dist_kwargs\<close> are its two keys.
\<close>

record prior =
  dist_name :: string
  dist_kwargs :: "(string \<times> int) list"

type_synonym priors_dict = "(string \<times> prior) list"

subsection \<open>The classes\<close>

text \<open>The three concrete classes, as the class objects the registry holds.\<close>

datatype adstock_class = GeometricAdstock | DelayedAdstock | WeibullAdstock

text \<open>The class attribute \<^verbatim>\<open>lookup_name\<close> (lines 154, 186, 226).\<close>

fun lookup_name :: "adstock_class \<Rightarrow> string" where
  "lookup_name GeometricAdstock = ''geometric''"
| "lookup_name DelayedAdstock = ''delayed''"
| "lookup_name WeibullAdstock = ''weibull''"

text \<open>
  The parameters of \<^verbatim>\<open>function\<close> after \<^verbatim>\<open>self\<close> and \<^verbatim>\<open>x\<close>, as the three signatures
  declare them (lines 156, 188, 243).
\<close>

fun function_parameters :: "adstock_class \<Rightarrow> string list" where
  "function_parameters GeometricAdstock = [''alpha'']"
| "function_parameters DelayedAdstock = [''alpha'', ''theta'']"
| "function_parameters WeibullAdstock = [''lam'', ''k'']"

text \<open>The class attribute \<^verbatim>\<open>default_priors\<close> (lines 161, 198-201, 253-256).\<close>

fun default_priors :: "adstock_class \<Rightarrow> priors_dict" where
  "default_priors GeometricAdstock =
     [(''alpha'', \<lparr>dist_name = ''Beta'', dist_kwargs = [(''alpha'', 1), (''beta'', 3)]\<rparr>)]"
| "default_priors DelayedAdstock =
     [(''alpha'', \<lparr>dist_name = ''Beta'', dist_kwargs = [(''alpha'', 1), (''beta'', 3)]\<rparr>),
      (''theta'', \<lparr>dist_name = ''HalfNormal'', dist_kwargs = [(''sigma'', 1)]\<rparr>)]"
| "default_priors WeibullAdstock =
     [(''lam'', \<lparr>dist_name = ''HalfNormal'', dist_kwargs = [(''sigma'', 1)]\<rparr>),
      (''k'', \<lparr>dist_name = ''HalfNormal'', dist_kwargs = [(''sigma'', 1)]\<rparr>)]"

subsection \<open>Instances\<close>

text \<open>
  The attributes \<^verbatim>\<open>l_max\<close>, \<^verbatim>\<open>normalize\<close> and \<^verbatim>\<open>mode\<close> that
  \<^verbatim>\<open>AdstockTransformation.__init__\<close> sets (lines 90-92), and the call
  \<^verbatim>\<open>super().__init__(priors=priors, prefix=prefix)\<close> of line 94.

  Modelled from the spec: the base class \<^verbatim>\<open>Transformation\<close>
  (\<^verbatim>\<open>pymc_marketing.mmm.components.base\<close>) is not among the sources, so which attributes
  its initialiser derives from \<^verbatim>\<open>priors\<close> and \<^verbatim>\<open>prefix\<close> is not known here. The call is
  represented by its two arguments, \<open>super_priors\<close> and \<open>super_prefix\<close>: they are what
  the initialiser was given, not attributes of the instance. The spec calls the objects
  "immutable, declarative records with no lifecycle beyond object construction", so
  the initialiser is taken to touch no attribute of this module and to return.
\<close>

record AdstockTransformation =
  l_max :: int
  normalize_flag :: bool
  mode :: ConvMode
  super_priors :: "priors_dict option"
  super_prefix :: "string option"

text \<open>\<^verbatim>\<open>WeibullAdstock\<close> adds the attribute \<^verbatim>\<open>kind\<close> (line 237).\<close>

record WeibullAdstock_obj = AdstockTransformation +
  kind :: WeibullType

text \<open>An instance of one of the three classes.\<close>

datatype adstock =
    Geometric AdstockTransformation
  | Delayed AdstockTransformation
  | Weibull WeibullAdstock_obj

fun class_of :: "adstock \<Rightarrow> adstock_class" where
  "class_of (Geometric a) = GeometricAdstock"
| "class_of (Delayed a) = DelayedAdstock"
| "class_of (Weibull a) = WeibullAdstock"

text \<open>The part every instance has, read through the class of the instance.\<close>

fun descriptor :: "adstock \<Rightarrow> AdstockTransformation" where
  "descriptor (Geometric a) = a"
| "descriptor (Delayed a) = a"
| "descriptor (Weibull a) = AdstockTransformation.truncate a"

fun kind_of :: "adstock \<Rightarrow> WeibullType option" where
  "kind_of (Weibull a) = Some (kind a)"
| "kind_of _ = None"

subsection \<open>Construction\<close>

text \<open>
  \<^verbatim>\<open>AdstockTransformation.__init__(self, l_max, normalize, mode, priors, prefix)\<close>,
  lines 82-94, with every argument given.
\<close>

definition AdstockTransformation_init ::
  "int \<Rightarrow> bool \<Rightarrow> ConvMode \<Rightarrow> priors_dict option \<Rightarrow> string option \<Rightarrow> AdstockTransformation"
where
  "AdstockTransformation_init l_max' normalize' mode' priors' prefix' =
     \<lparr>l_max = l_max', normalize_flag = normalize', mode = mode',
      super_priors = priors', super_prefix = prefix'\<rparr>"

text \<open>
  \<^verbatim>\<open>WeibullAdstock.__init__(self, l_max, normalize, kind, mode, priors, prefix)\<close>,
  lines 228-241: it sets \<^verbatim>\<open>kind\<close> and calls the initialiser of the superclass.
\<close>

definition WeibullAdstock_init ::
  "int \<Rightarrow> bool \<Rightarrow> WeibullType \<Rightarrow> ConvMode \<Rightarrow> priors_dict option \<Rightarrow> string option
     \<Rightarrow> WeibullAdstock_obj"
where
  "WeibullAdstock_init l_max' normalize' kind' mode' priors' prefix' =
     AdstockTransformation.extend
       (AdstockTransformation_init l_max' normalize' mode' priors' prefix')
       (WeibullAdstock_obj.fields kind')"

text \<open>
  The keyword arguments of a call \<^verbatim>\<open>cls(**kwargs)\<close>: for each parameter name of
  the two initialisers the value given under it, if any, and in \<open>kw_other\<close> the
  names given that no initialiser of the module declares. \<^verbatim>\<open>priors\<close> and \<^verbatim>\<open>prefix\<close> may
  be given as \<^verbatim>\<open>None\<close>.
\<close>

record keyword_args =
  kw_l_max :: "int option"
  kw_normalize :: "bool option"
  kw_kind :: "WeibullType option"
  kw_mode :: "ConvMode option"
  kw_priors :: "priors_dict option option"
  kw_prefix :: "string option option"
  kw_other :: "string list"

text \<open>The empty dictionary: \<^verbatim>\<open>if kwargs:\<close> is false for it alone.\<close>

definition no_kwargs :: keyword_args where
  "no_kwargs =
     \<lparr>kw_l_max = None, kw_normalize = None, kw_kind = None, kw_mode = None,
      kw_priors = None, kw_prefix = None, kw_other = []\<rparr>"

text \<open>The value of a parameter: the one given, the default of the signature otherwise.\<close>

fun or_default :: "'a option \<Rightarrow> 'a \<Rightarrow> 'a" where
  "or_default None d = d"
| "or_default (Some v) d = v"

text \<open>
  Calling \<^verbatim>\<open>GeometricAdstock(**kwargs)\<close> or \<^verbatim>\<open>DelayedAdstock(**kwargs)\<close>: both inherit
  the signature of lines 82-89. A keyword that it does not declare (\<^verbatim>\<open>kind\<close> is one)
  and a missing \<^verbatim>\<open>l_max\<close> raise \<open>TypeError\<close>; the defaults are \<^verbatim>\<open>normalize=True\<close>,
  \<^verbatim>\<open>mode=ConvMode.After\<close>, \<^verbatim>\<open>priors=None\<close>, \<^verbatim>\<open>prefix=None\<close>.
\<close>

definition call_AdstockTransformation_init :: "keyword_args \<Rightarrow> error + AdstockTransformation" where
  "call_AdstockTransformation_init kwargs =
     (if kw_kind kwargs \<noteq> None \<or> kw_other kwargs \<noteq> [] then Inl TypeError
      else case kw_l_max kwargs of
        None \<Rightarrow> Inl TypeError
      | Some l \<Rightarrow>
          Inr (AdstockTransformation_init l
                 (or_default (kw_normalize kwargs) True)
                 (or_default (kw_mode kwargs) After)
                 (or_default (kw_priors kwargs) None)
                 (or_default (kw_prefix kwargs) None)))"

text \<open>
  Calling \<^verbatim>\<open>WeibullAdstock(**kwargs)\<close>, with the signature of lines 228-236: it has
  \<^verbatim>\<open>kind=WeibullType.PDF\<close> in addition.
\<close>

definition call_WeibullAdstock_init :: "keyword_args \<Rightarrow> error + WeibullAdstock_obj" where
  "call_WeibullAdstock_init kwargs =
     (if kw_other kwargs \<noteq> [] then Inl TypeError
      else case kw_l_max kwargs of
        None \<Rightarrow> Inl TypeError
      | Some l \<Rightarrow>
          Inr (WeibullAdstock_init l
                 (or_default (kw_normalize kwargs) True)
                 (or_default (kw_kind kwargs) PDF)
                 (or_default (kw_mode kwargs) After)
                 (or_default (kw_priors kwargs) None)
                 (or_default (kw_prefix kwargs) None)))"

text \<open>\<^verbatim>\<open>cls(**kwargs)\<close> for a class object of the registry.\<close>

fun call_class :: "adstock_class \<Rightarrow> keyword_args \<Rightarrow> error + adstock" where
  "call_class GeometricAdstock kwargs = map_sum id Geometric (call_AdstockTransformation_init kwargs)"
| "call_class DelayedAdstock kwargs = map_sum id Delayed (call_AdstockTransformation_init kwargs)"
| "call_class WeibullAdstock kwargs = map_sum id Weibull (call_WeibullAdstock_init kwargs)"

subsection \<open>The registry and the lookup\<close>

text \<open>
  \<^verbatim>\<open>ADSTOCK_TRANSFORMATIONS\<close> (lines 259-262): the dictionary comprehension
  \<^verbatim>\<open>{cls.lookup_name: cls for cls in [...]}\<close> stores the classes one after the other,
  a later one replacing an earlier one under the same key.
\<close>

definition ADSTOCK_TRANSFORMATIONS :: "(string \<times> adstock_class) list" where
  "ADSTOCK_TRANSFORMATIONS =
     foldl (\<lambda>d cls. AList.update (lookup_name cls) cls d) []
       [GeometricAdstock, DelayedAdstock, WeibullAdstock]"

text \<open>
  What the helper works on besides its arguments: the warnings emitted so far and the
  objects constructed so far.
\<close>

record runtime =
  warnings :: "(warning_category \<times> string) list"
  constructed :: "adstock list"

definition warn :: "string \<Rightarrow> warning_category \<Rightarrow> runtime \<Rightarrow> runtime" where
  "warn message category s = s\<lparr>warnings := warnings s @ [(category, message)]\<rparr>"

text \<open>A class call in a runtime: the object it returns is a new one.\<close>

definition construct :: "adstock_class \<Rightarrow> keyword_args \<Rightarrow> runtime \<Rightarrow> (error + adstock) \<times> runtime" where
  "construct cls kwargs s =
     (case call_class cls kwargs of
        Inl e \<Rightarrow> (Inl e, s)
      | Inr obj \<Rightarrow> (Inr obj, s\<lparr>constructed := constructed s @ [obj]\<rparr>))"

text \<open>
  \<^verbatim>\<open>repr\<close> of a string without quotes, backslashes or control characters (the keys of
  the registry are such), and \<^verbatim>\<open>str\<close> of a list of them, as the f-string of line 275
  formats \<^verbatim>\<open>list(ADSTOCK_TRANSFORMATIONS.keys())\<close>.
\<close>

definition repr_str :: "string \<Rightarrow> string" where
  "repr_str s = [CHR 0x27] @ s @ [CHR 0x27]"

fun join :: "string \<Rightarrow> string list \<Rightarrow> string" where
  "join sep [] = []"
| "join sep [s] = s"
| "join sep (s # t # ss) = s @ sep @ join sep (t # ss)"

definition str_list :: "string list \<Rightarrow> string" where
  "str_list ss = ''['' @ join '', '' (map repr_str ss) @ '']''"

definition unknown_message :: "string \<Rightarrow> string" where
  "unknown_message name =
     ''Unknown adstock function: '' @ name @ ''. Choose from ''
       @ str_list (map fst ADSTOCK_TRANSFORMATIONS)"

definition deprecation_message :: string where
  "deprecation_message =
     ''The preferred method of initializing a lagging function is to use the class directly.''"

text \<open>The argument \<^verbatim>\<open>function: str | AdstockTransformation\<close>.\<close>

datatype lookup_arg = Name string | Instance adstock

text \<open>\<^verbatim>\<open>_get_adstock_function(function, **kwargs)\<close>, lines 265-285.\<close>

definition get_adstock_function ::
  "lookup_arg \<Rightarrow> keyword_args \<Rightarrow> runtime \<Rightarrow> (error + adstock) \<times> runtime"
where
  "get_adstock_function function kwargs s =
     (case function of
        Instance obj \<Rightarrow> (Inr obj, s)
      | Name name \<Rightarrow>
          (if name \<notin> set (map fst ADSTOCK_TRANSFORMATIONS)
           then (Inl (ValueError (unknown_message name)), s)
           else
            let s' = (if kwargs \<noteq> no_kwargs
                      then warn deprecation_message DeprecationWarning s else s)
            in (case map_of ADSTOCK_TRANSFORMATIONS name of
                  None \<Rightarrow> (Inl (KeyError name), s')
                | Some cls \<Rightarrow> construct cls kwargs s')))"

subsection \<open>The methods\<close>

text \<open>
  A method is a function of its receiver that returns its result together with the
  receiver as the method leaves it.

  \<^verbatim>\<open>GeometricAdstock.function(self, x, alpha)\<close>, lines 156-159.
\<close>

definition GeometricAdstock_function ::
  "AdstockTransformation \<Rightarrow> 't \<Rightarrow> 't \<Rightarrow> 't transformer_call \<times> AdstockTransformation"
where
  "GeometricAdstock_function self x alpha =
     (geometric_adstock x alpha (l_max self) (normalize_flag self) (mode self), self)"

text \<open>\<^verbatim>\<open>DelayedAdstock.function(self, x, alpha, theta)\<close>, lines 188-196.\<close>

definition DelayedAdstock_function ::
  "AdstockTransformation \<Rightarrow> 't \<Rightarrow> 't \<Rightarrow> 't \<Rightarrow> 't transformer_call \<times> AdstockTransformation"
where
  "DelayedAdstock_function self x alpha theta =
     (delayed_adstock x alpha theta (l_max self) (normalize_flag self) (mode self), self)"

text \<open>\<^verbatim>\<open>WeibullAdstock.function(self, x, lam, k)\<close>, lines 243-251.\<close>

definition WeibullAdstock_function ::
  "WeibullAdstock_obj \<Rightarrow> 't \<Rightarrow> 't \<Rightarrow> 't \<Rightarrow> 't transformer_call \<times> WeibullAdstock_obj"
where
  "WeibullAdstock_function self x lam k =
     (weibull_adstock x lam k (l_max self) (mode self) (kind self), self)"

text \<open>
  The two numpy constructors of \<^verbatim>\<open>sample_curve\<close> on an \<open>int\<close>. \<^verbatim>\<open>np.arange(start, stop)\<close>
  has \<open>stop - start\<close> entries and is empty when \<open>stop \<le> start\<close>; \<^verbatim>\<open>np.zeros(n)\<close> refuses
  a negative \<open>n\<close>. numpy indexes an array by a signed 64-bit integer and refuses a
  length of \<open>2^63\<close> or more; below that, the array exists when the memory of the machine
  holds it: \<open>capacity\<close> is the length of the longest array it holds.
\<close>

definition np_arange :: "nat \<Rightarrow> int \<Rightarrow> int \<Rightarrow> error + int list" where
  "np_arange capacity start stop =
     (if 2 ^ 63 \<le> stop - start then Inl (ValueError ''Maximum allowed dimension exceeded'')
      else if int capacity < stop - start then Inl MemoryError
      else Inr [start..stop - 1])"

definition np_zeros :: "nat \<Rightarrow> int \<Rightarrow> error + ('f::zero) list" where
  "np_zeros capacity n =
     (if n < 0 then Inl (ValueError ''negative dimensions are not allowed'')
      else if 2 ^ 63 \<le> n then Inl (ValueError ''Maximum allowed dimension exceeded'')
      else if int capacity < n then Inl MemoryError
      else Inr (replicate (nat n) 0))"

text \<open>
  The assignment \<^verbatim>\<open>x[i] = v\<close> to a one-dimensional array: an index below zero counts
  from the end, and an index outside the array raises \<open>IndexError\<close>.
\<close>

definition setitem :: "'a list \<Rightarrow> int \<Rightarrow> 'a \<Rightarrow> error + 'a list" where
  "setitem xs i v =
     (if - int (length xs) \<le> i \<and> i < int (length xs)
      then Inr (xs[nat (if i < 0 then i + int (length xs) else i) := v])
      else Inl IndexError)"

text \<open>
  \<^verbatim>\<open>AdstockTransformation.sample_curve(self, parameters, amount=1.0)\<close>, lines 96-129;
  \<open>amount\<close> is \<open>None\<close> when the caller leaves it out. The method is inherited by the
  three classes, so the receiver is any record with the attributes of
  \<open>AdstockTransformation\<close>.

  Modelled from the spec: \<^verbatim>\<open>_sample_curve\<close>, which line 124 calls, is a method of the base
  class \<^verbatim>\<open>Transformation\<close>, which is not among the sources. It is the parameter
  \<open>base_sample_curve\<close>: any function of the receiver and of the four arguments of the
  call that returns a result or raises. The objects being "immutable, declarative
  records", it is taken to leave the attributes of its receiver as they are.
\<close>

definition sample_curve ::
  "nat
     \<Rightarrow> ('a AdstockTransformation_scheme \<Rightarrow> string \<Rightarrow> 'p \<Rightarrow> 'f list
           \<Rightarrow> (string \<times> int list) list \<Rightarrow> error + 'r)
     \<Rightarrow> 'a AdstockTransformation_scheme \<Rightarrow> 'p \<Rightarrow> ('f::{zero,one}) option
     \<Rightarrow> (error + 'r) \<times> 'a AdstockTransformation_scheme"
where
  "sample_curve capacity base_sample_curve self parameters amount =
     (case np_arange capacity 0 (l_max self) of
        Inl e \<Rightarrow> (Inl e, self)
      | Inr time_since \<Rightarrow>
          (let coords = [(''time since exposure'', time_since)]
           in (case np_zeros capacity (l_max self) of
                 Inl e \<Rightarrow> (Inl e, self)
               | Inr zeros \<Rightarrow>
                   (case setitem zeros 0 (or_default amount 1) of
                      Inl e \<Rightarrow> (Inl e, self)
                    | Inr x \<Rightarrow>
                        (base_sample_curve self ''adstock'' parameters x coords, self)))))"

subsection \<open>Keyword arguments that fit a signature\<close>

text \<open>
  The keyword arguments fit the signature of the initialiser of a class when \<^verbatim>\<open>l_max\<close>,
  its one parameter without a default, is among them, and every name among them is a
  parameter: \<^verbatim>\<open>kind\<close> is one of \<^verbatim>\<open>WeibullAdstock.__init__\<close> only.
\<close>

definition fits :: "adstock_class \<Rightarrow> keyword_args \<Rightarrow> bool" where
  "fits cls kwargs =
     (kw_l_max kwargs \<noteq> None \<and> kw_other kwargs = []
      \<and> (cls = WeibullAdstock \<or> kw_kind kwargs = None))"

text \<open>A runtime in which nothing has happened yet.\<close>

definition fresh :: runtime where
  "fresh = \<lparr>warnings = [], constructed = []\<rparr>"

section \<open>Properties\<close>

subsection \<open>The registry\<close>

lemma registry_entries:
  "ADSTOCK_TRANSFORMATIONS =
     [(''geometric'', GeometricAdstock), (''delayed'', DelayedAdstock),
      (''weibull'', WeibullAdstock)]"
  by (simp add: ADSTOCK_TRANSFORMATIONS_def)

lemma registry_lookup:
  "map_of ADSTOCK_TRANSFORMATIONS name = Some cls \<longleftrightarrow> name = lookup_name cls"
  by (cases cls) (auto simp: registry_entries)

lemma registry_keys:
  "name \<in> set (map fst ADSTOCK_TRANSFORMATIONS) \<longleftrightarrow> (\<exists>cls. name = lookup_name cls)"
proof
  assume "name \<in> set (map fst ADSTOCK_TRANSFORMATIONS)"
  then consider "name = lookup_name GeometricAdstock" | "name = lookup_name DelayedAdstock"
    | "name = lookup_name WeibullAdstock"
    by (auto simp: registry_entries)
  then show "\<exists>cls. name = lookup_name cls" by cases blast+
next
  assume "\<exists>cls. name = lookup_name cls"
  then obtain cls where "name = lookup_name cls" ..
  then show "name \<in> set (map fst ADSTOCK_TRANSFORMATIONS)"
    by (cases cls) (simp_all add: registry_entries)
qed

text \<open>
  C5. The registry has exactly three entries: \<^verbatim>\<open>'geometric'\<close> for \<^verbatim>\<open>GeometricAdstock\<close>,
  \<^verbatim>\<open>'delayed'\<close> for \<^verbatim>\<open>DelayedAdstock\<close> and \<^verbatim>\<open>'weibull'\<close> for \<^verbatim>\<open>WeibullAdstock\<close>, and a
  class is registered under a name exactly when the name is its own \<^verbatim>\<open>lookup_name\<close>.
\<close>

theorem registry_contents:
  "ADSTOCK_TRANSFORMATIONS =
     [(''geometric'', GeometricAdstock), (''delayed'', DelayedAdstock),
      (''weibull'', WeibullAdstock)]
   \<and> length ADSTOCK_TRANSFORMATIONS = 3
   \<and> map (\<lambda>(name, cls). lookup_name cls) ADSTOCK_TRANSFORMATIONS
       = map fst ADSTOCK_TRANSFORMATIONS
   \<and> (map_of ADSTOCK_TRANSFORMATIONS name = Some cls \<longleftrightarrow> name = lookup_name cls)"
  using registry_lookup [of name cls] by (simp add: registry_entries)

subsection \<open>The catalogue of priors\<close>

text \<open>
  C6. The default priors are: for \<^verbatim>\<open>GeometricAdstock\<close>, alpha with Beta(alpha=1, beta=3);
  for \<^verbatim>\<open>DelayedAdstock\<close>, alpha with Beta(alpha=1, beta=3) and theta with
  HalfNormal(sigma=1); for \<^verbatim>\<open>WeibullAdstock\<close>, lam and k with HalfNormal(sigma=1). Each
  entry is a family name with its numeric hyperparameters, and there is no other entry.
\<close>

theorem default_prior_table:
  "map (\<lambda>(name, p). (name, dist_name p, dist_kwargs p)) (default_priors GeometricAdstock)
     = [(''alpha'', ''Beta'', [(''alpha'', 1), (''beta'', 3)])]
   \<and> map (\<lambda>(name, p). (name, dist_name p, dist_kwargs p)) (default_priors DelayedAdstock)
     = [(''alpha'', ''Beta'', [(''alpha'', 1), (''beta'', 3)]),
        (''theta'', ''HalfNormal'', [(''sigma'', 1)])]
   \<and> map (\<lambda>(name, p). (name, dist_name p, dist_kwargs p)) (default_priors WeibullAdstock)
     = [(''lam'', ''HalfNormal'', [(''sigma'', 1)]),
        (''k'', ''HalfNormal'', [(''sigma'', 1)])]"
  by simp

text \<open>
  C3. For each of the three classes, the parameters of \<^verbatim>\<open>function\<close> other than \<^verbatim>\<open>self\<close>
  and \<^verbatim>\<open>x\<close> are the keys of \<^verbatim>\<open>default_priors\<close>, as sets.
\<close>

theorem function_parameters_are_prior_keys:
  "set (function_parameters cls) = fst ` set (default_priors cls)"
  by (cases cls) auto

subsection \<open>The lookup given an instance\<close>

text \<open>
  C8. Given an instance, \<^verbatim>\<open>_get_adstock_function\<close> returns that instance whatever the
  keyword arguments are: no error is raised, no warning is emitted and no object is
  constructed.
\<close>

theorem get_adstock_function_instance:
  "get_adstock_function (Instance obj) kwargs s = (Inr obj, s)"
  by (simp add: get_adstock_function_def)

subsection \<open>The series of \<open>sample_curve\<close>\<close>

lemma setitem_first:
  "0 < n \<Longrightarrow> setitem (replicate n z) 0 v = Inr (v # replicate (n - 1) z)"
  by (cases n) (simp_all add: setitem_def)

lemma sample_curve_zero:
  "l_max self = 0 \<Longrightarrow>
     sample_curve capacity base_sample_curve self parameters amount = (Inl IndexError, self)"
  by (simp add: sample_curve_def np_arange_def np_zeros_def setitem_def)

lemma sample_curve_positive:
  assumes "1 \<le> l_max self" and "l_max self \<le> int capacity" and "l_max self < 2 ^ 63"
  shows "sample_curve capacity base_sample_curve self parameters amount =
     (base_sample_curve self ''adstock'' parameters
        (or_default amount 1 # replicate (nat (l_max self) - 1) 0)
        [(''time since exposure'', [0..l_max self - 1])], self)"
proof -
  from assms have "0 < nat (l_max self)" by simp
  from setitem_first [OF this]
  have "setitem (replicate (nat (l_max self)) 0) 0 (or_default amount 1)
          = Inr (or_default amount 1 # replicate (nat (l_max self) - 1) 0)" .
  with assms show ?thesis
    by (simp add: sample_curve_def np_zeros_def np_arange_def)
qed

text \<open>
  C9, as stated, fails for an \<open>l_max\<close> that numpy cannot make an array of: with
  \<open>l_max = 2^63\<close>, whatever the memory of the machine, \<^verbatim>\<open>np.arange(0, l_max)\<close> raises
  \<open>ValueError\<close> and no series is built.
\<close>

theorem sample_curve_unit_impulse_counterexample:
  "fst (sample_curve (2 ^ 64) (\<lambda>self var_name parameters x coords. Inr (var_name, x, coords))
          (AdstockTransformation_init (2 ^ 63) True After None None) () (Some (1::real)))
     = Inl (ValueError ''Maximum allowed dimension exceeded'')"
  by (simp add: sample_curve_def np_arange_def AdstockTransformation_init_def)

text \<open>
  C9, amended. With \<open>l_max \<ge> 1\<close> of which numpy can make an array (\<open>l_max\<close> below \<open>2^63\<close>
  and no more than the memory holds), \<^verbatim>\<open>sample_curve\<close> hands to \<^verbatim>\<open>_sample_curve\<close> a series
  of length \<open>l_max\<close> whose first entry is the \<open>amount\<close> it is given, or 1.0 when
  \<open>amount\<close> is left out, and whose other entries are zero, under the coordinate
  \<^verbatim>\<open>time since exposure\<close> with the \<open>l_max\<close> values \<open>0, ..., l_max - 1\<close>. With \<open>l_max = 0\<close>
  the assignment to the first entry raises \<open>IndexError\<close>.
\<close>

theorem sample_curve_unit_impulse:
  "(1 \<le> l_max self \<and> l_max self \<le> int capacity \<and> l_max self < 2 ^ 63 \<longrightarrow>
      fst (sample_curve capacity base_sample_curve self parameters (Some a)) =
        base_sample_curve self ''adstock'' parameters
          (a # replicate (nat (l_max self) - 1) 0)
          [(''time since exposure'', [0..l_max self - 1])]
      \<and> fst (sample_curve capacity base_sample_curve self parameters None) =
        base_sample_curve self ''adstock'' parameters
          (1 # replicate (nat (l_max self) - 1) 0)
          [(''time since exposure'', [0..l_max self - 1])]
      \<and> length (a # replicate (nat (l_max self) - 1) 0) = nat (l_max self)
      \<and> length [0..l_max self - 1] = nat (l_max self))
   \<and> (l_max self = 0 \<longrightarrow>
        fst (sample_curve capacity base_sample_curve self parameters amount) = Inl IndexError)"
proof (intro conjI impI)
  assume ok: "1 \<le> l_max self \<and> l_max self \<le> int capacity \<and> l_max self < 2 ^ 63"
  then have 1: "1 \<le> l_max self" and 2: "l_max self \<le> int capacity"
    and 3: "l_max self < 2 ^ 63"
    by simp_all
  show "fst (sample_curve capacity base_sample_curve self parameters (Some a)) =
        base_sample_curve self ''adstock'' parameters
          (a # replicate (nat (l_max self) - 1) 0)
          [(''time since exposure'', [0..l_max self - 1])]"
    by (simp add: sample_curve_positive [OF 1 2 3])
  show "fst (sample_curve capacity base_sample_curve self parameters None) =
        base_sample_curve self ''adstock'' parameters
          (1 # replicate (nat (l_max self) - 1) 0)
          [(''time since exposure'', [0..l_max self - 1])]"
    by (simp add: sample_curve_positive [OF 1 2 3])
  from 1 show "length (a # replicate (nat (l_max self) - 1) 0) = nat (l_max self)"
    by simp
  from 1 show "length [0..l_max self - 1] = nat (l_max self)"
    by simp
next
  assume "l_max self = 0"
  then show "fst (sample_curve capacity base_sample_curve self parameters amount)
      = Inl IndexError"
    by (simp add: sample_curve_zero)
qed

text \<open>
  C9 amended, at \<^verbatim>\<open>GeometricAdstock(l_max=3).sample_curve(parameters, amount=2.5)\<close>, whose
  series is \<open>[2.5, 0, 0]\<close> over \<open>[0, 1, 2]\<close>, at the same call without \<open>amount\<close>, whose
  series is \<open>[1, 0, 0]\<close>, and at \<open>l_max = 0\<close>. The base method of the example returns
  the arguments it is given.
\<close>

theorem sample_curve_unit_impulse_witness:
  "fst (sample_curve 1000 (\<lambda>self var_name parameters x coords. Inr (var_name, x, coords))
          (AdstockTransformation_init 3 True After None None) () (Some (5 / 2 :: real)))
     = Inr (''adstock'', [5 / 2, 0, 0], [(''time since exposure'', [0, 1, 2])])
   \<and> fst (sample_curve 1000 (\<lambda>self var_name parameters x coords. Inr (var_name, x, coords))
          (AdstockTransformation_init 3 True After None None) () (None :: real option))
     = Inr (''adstock'', [1, 0, 0], [(''time since exposure'', [0, 1, 2])])
   \<and> fst (sample_curve 1000 (\<lambda>self var_name parameters x coords. Inr (var_name, x, coords))
          (AdstockTransformation_init 0 True After None None) () (Some (5 / 2 :: real)))
     = Inl IndexError"
proof -
  have up: "[0..(2::int)] = [0, 1, 2]" by code_simp
  have l3: "l_max (AdstockTransformation_init 3 True After None None) = 3"
    and l0: "l_max (AdstockTransformation_init 0 True After None None) = 0"
    by (simp_all add: AdstockTransformation_init_def)
  from sample_curve_unit_impulse
    [of "AdstockTransformation_init 3 True After None None" 1000
      "\<lambda>self var_name parameters x coords. Inr (var_name, x, coords)" "()" "5 / 2 :: real"]
    l3 up
  have "fst (sample_curve 1000 (\<lambda>self var_name parameters x coords. Inr (var_name, x, coords))
          (AdstockTransformation_init 3 True After None None) () (Some (5 / 2 :: real)))
     = Inr (''adstock'', [5 / 2, 0, 0], [(''time since exposure'', [0, 1, 2])])
   \<and> fst (sample_curve 1000 (\<lambda>self var_name parameters x coords. Inr (var_name, x, coords))
          (AdstockTransformation_init 3 True After None None) () (None :: real option))
     = Inr (''adstock'', [1, 0, 0], [(''time since exposure'', [0, 1, 2])])"
    by (simp add: numeral_3_eq_3)
  moreover from sample_curve_unit_impulse
    [of "AdstockTransformation_init 0 True After None None" 1000
      "\<lambda>self var_name parameters x coords. Inr (var_name, x, coords)" "()" "5 / 2 :: real"
      "Some (5 / 2 :: real)"]
    l0
  have "fst (sample_curve 1000 (\<lambda>self var_name parameters x coords. Inr (var_name, x, coords))
          (AdstockTransformation_init 0 True After None None) () (Some (5 / 2 :: real)))
     = Inl IndexError"
    by simp
  ultimately show ?thesis by simp
qed

subsection \<open>Calling a class, and the lookup by name\<close>

lemma call_class_error: "call_class cls kwargs = Inl e \<Longrightarrow> e = TypeError"
  by (cases cls)
    (auto simp: call_AdstockTransformation_init_def call_WeibullAdstock_init_def
      split: if_splits option.splits)

lemma call_class_not_fits: "\<not> fits cls kwargs \<Longrightarrow> call_class cls kwargs = Inl TypeError"
  by (cases cls)
    (auto simp: fits_def call_AdstockTransformation_init_def call_WeibullAdstock_init_def
      split: option.splits)

lemma call_class_fits:
  assumes "fits cls kwargs"
  shows "\<exists>obj. call_class cls kwargs = Inr obj \<and> class_of obj = cls
    \<and> kw_l_max kwargs = Some (l_max (descriptor obj))
    \<and> (\<forall>v. kw_normalize kwargs = Some v \<longrightarrow> normalize_flag (descriptor obj) = v)
    \<and> (\<forall>v. kw_mode kwargs = Some v \<longrightarrow> mode (descriptor obj) = v)
    \<and> (\<forall>v. kw_kind kwargs = Some v \<longrightarrow> kind_of obj = Some v)"
proof -
  from assms obtain l where l: "kw_l_max kwargs = Some l" and other: "kw_other kwargs = []"
    and knd: "cls = WeibullAdstock \<or> kw_kind kwargs = None"
    by (auto simp: fits_def)
  show ?thesis
  proof (cases cls)
    case GeometricAdstock
    with l other knd show ?thesis
      by (simp add: call_AdstockTransformation_init_def AdstockTransformation_init_def)
  next
    case DelayedAdstock
    with l other knd show ?thesis
      by (simp add: call_AdstockTransformation_init_def AdstockTransformation_init_def)
  next
    case WeibullAdstock
    with l other show ?thesis
      by (simp add: call_WeibullAdstock_init_def WeibullAdstock_init_def
          AdstockTransformation_init_def AdstockTransformation.extend_def
          AdstockTransformation.truncate_def WeibullAdstock_obj.fields_def)
  qed
qed

lemma get_registered:
  assumes "map_of ADSTOCK_TRANSFORMATIONS name = Some cls"
  shows "get_adstock_function (Name name) kwargs s =
    construct cls kwargs
      (if kwargs \<noteq> no_kwargs then warn deprecation_message DeprecationWarning s else s)"
proof -
  from assms have "name \<in> set (map fst ADSTOCK_TRANSFORMATIONS)"
    by (metis registry_keys registry_lookup)
  with assms show ?thesis
    by (simp add: get_adstock_function_def Let_def)
qed

lemma get_unregistered:
  assumes "name \<notin> set (map fst ADSTOCK_TRANSFORMATIONS)"
  shows "get_adstock_function (Name name) kwargs s = (Inl (ValueError (unknown_message name)), s)"
  using assms by (simp add: get_adstock_function_def)

lemma fst_construct: "fst (construct cls kwargs s) = call_class cls kwargs"
  by (simp add: construct_def split: sum.splits)

lemma warnings_construct: "warnings (snd (construct cls kwargs s)) = warnings s"
  by (simp add: construct_def split: sum.splits)

lemma constructed_construct:
  "constructed (snd (construct cls kwargs s)) =
     constructed s @ (case call_class cls kwargs of Inl e \<Rightarrow> [] | Inr obj \<Rightarrow> [obj])"
  by (simp add: construct_def split: sum.splits)

lemma get_warnings:
  "warnings (snd (get_adstock_function fn kwargs s)) =
     (if (\<exists>name. fn = Name name \<and> name \<in> set (map fst ADSTOCK_TRANSFORMATIONS))
         \<and> kwargs \<noteq> no_kwargs
      then warnings s @ [(DeprecationWarning, deprecation_message)] else warnings s)"
proof (cases fn)
  case (Instance obj)
  then show ?thesis by (simp add: get_adstock_function_def)
next
  case (Name name)
  show ?thesis
  proof (cases "map_of ADSTOCK_TRANSFORMATIONS name")
    case None
    then have "name \<notin> set (map fst ADSTOCK_TRANSFORMATIONS)"
      by (simp add: map_of_eq_None_iff)
    with Name show ?thesis by (simp add: get_unregistered)
  next
    case (Some cls)
    then have "name \<in> set (map fst ADSTOCK_TRANSFORMATIONS)"
      by (metis registry_keys registry_lookup)
    with Name Some show ?thesis
      by (simp add: get_registered warnings_construct warn_def)
  qed
qed

lemma unknown_message_text:
  "unknown_message name =
     ''Unknown adstock function: '' @ name @ ''. Choose from [''
       @ [CHR 0x27] @ ''geometric'' @ [CHR 0x27] @ '', ''
       @ [CHR 0x27] @ ''delayed'' @ [CHR 0x27] @ '', ''
       @ [CHR 0x27] @ ''weibull'' @ [CHR 0x27] @ '']''"
  by (simp add: unknown_message_def registry_entries str_list_def repr_str_def)

text \<open>
  C4, as stated, fails: \<^verbatim>\<open>'geometric'\<close> is a key of the registry, and
  \<^verbatim>\<open>_get_adstock_function("geometric")\<close> returns no instance, since
  \<^verbatim>\<open>GeometricAdstock()\<close> lacks the required \<^verbatim>\<open>l_max\<close> and raises \<open>TypeError\<close>.
\<close>

theorem get_adstock_function_registered_counterexample:
  "map_of ADSTOCK_TRANSFORMATIONS ''geometric'' = Some GeometricAdstock
   \<and> get_adstock_function (Name ''geometric'') no_kwargs fresh = (Inl TypeError, fresh)"
  by (simp add: registry_entries get_adstock_function_def construct_def
      call_AdstockTransformation_init_def no_kwargs_def)

text \<open>
  C4, amended. For a name that is a key of the registry and keyword arguments that fit
  the signature of the class registered under it (\<^verbatim>\<open>l_max\<close> given, no name that the
  initialiser does not declare), \<^verbatim>\<open>_get_adstock_function\<close> returns an instance of that
  class, constructed by the call with exactly the given keyword arguments: it is the
  object that the call of the class constructs, and the \<^verbatim>\<open>l_max\<close>, \<^verbatim>\<open>normalize\<close>, \<^verbatim>\<open>mode\<close>
  and \<^verbatim>\<open>kind\<close> given are its attributes. With keyword arguments that do not fit, the
  call of the class raises \<open>TypeError\<close> and nothing is constructed.
\<close>

theorem get_adstock_function_registered:
  assumes "map_of ADSTOCK_TRANSFORMATIONS name = Some cls"
  shows "fst (get_adstock_function (Name name) kwargs s) = call_class cls kwargs
    \<and> (fits cls kwargs \<longrightarrow>
          (\<exists>obj. fst (get_adstock_function (Name name) kwargs s) = Inr obj
             \<and> class_of obj = cls
             \<and> constructed (snd (get_adstock_function (Name name) kwargs s))
                 = constructed s @ [obj]
             \<and> kw_l_max kwargs = Some (l_max (descriptor obj))
             \<and> (\<forall>v. kw_normalize kwargs = Some v \<longrightarrow> normalize_flag (descriptor obj) = v)
             \<and> (\<forall>v. kw_mode kwargs = Some v \<longrightarrow> mode (descriptor obj) = v)
             \<and> (\<forall>v. kw_kind kwargs = Some v \<longrightarrow> kind_of obj = Some v)))
    \<and> (\<not> fits cls kwargs \<longrightarrow>
          fst (get_adstock_function (Name name) kwargs s) = Inl TypeError
          \<and> constructed (snd (get_adstock_function (Name name) kwargs s)) = constructed s)"
proof -
  have res: "fst (get_adstock_function (Name name) kwargs s) = call_class cls kwargs"
    by (simp add: get_registered [OF assms] fst_construct)
  have con: "constructed (snd (get_adstock_function (Name name) kwargs s)) =
      constructed s @ (case call_class cls kwargs of Inl e \<Rightarrow> [] | Inr obj \<Rightarrow> [obj])"
    by (simp add: get_registered [OF assms] constructed_construct warn_def)
  have no: "call_class cls kwargs = Inl TypeError" if "\<not> fits cls kwargs"
    using that by (rule call_class_not_fits)
  show ?thesis
  proof (intro conjI impI)
    show "fst (get_adstock_function (Name name) kwargs s) = call_class cls kwargs"
      by (rule res)
  next
    assume "fits cls kwargs"
    from call_class_fits [OF this] res con
    show "\<exists>obj. fst (get_adstock_function (Name name) kwargs s) = Inr obj
             \<and> class_of obj = cls
             \<and> constructed (snd (get_adstock_function (Name name) kwargs s))
                 = constructed s @ [obj]
             \<and> kw_l_max kwargs = Some (l_max (descriptor obj))
             \<and> (\<forall>v. kw_normalize kwargs = Some v \<longrightarrow> normalize_flag (descriptor obj) = v)
             \<and> (\<forall>v. kw_mode kwargs = Some v \<longrightarrow> mode (descriptor obj) = v)
             \<and> (\<forall>v. kw_kind kwargs = Some v \<longrightarrow> kind_of obj = Some v)"
      by auto
  next
    assume "\<not> fits cls kwargs"
    from no [OF this] res
    show "fst (get_adstock_function (Name name) kwargs s) = Inl TypeError" by simp
  next
    assume "\<not> fits cls kwargs"
    from no [OF this] con
    show "constructed (snd (get_adstock_function (Name name) kwargs s)) = constructed s"
      by simp
  qed
qed

text \<open>
  C4 amended, at \<^verbatim>\<open>_get_adstock_function("delayed", l_max=12, normalize=False)\<close>, which
  returns a new \<^verbatim>\<open>DelayedAdstock\<close> with \<open>l_max = 12\<close> and \<open>normalize = False\<close>, and at
  \<^verbatim>\<open>_get_adstock_function("weibull", l_max=4, decay=...)\<close>, which raises \<open>TypeError\<close>.
\<close>

theorem get_adstock_function_registered_witness:
  "(\<exists>obj. fst (get_adstock_function (Name ''delayed'')
              (no_kwargs\<lparr>kw_l_max := Some 12, kw_normalize := Some False\<rparr>) fresh) = Inr obj
      \<and> class_of obj = DelayedAdstock
      \<and> l_max (descriptor obj) = 12
      \<and> normalize_flag (descriptor obj) = False
      \<and> constructed (snd (get_adstock_function (Name ''delayed'')
              (no_kwargs\<lparr>kw_l_max := Some 12, kw_normalize := Some False\<rparr>) fresh)) = [obj])
   \<and> fst (get_adstock_function (Name ''weibull'')
          (no_kwargs\<lparr>kw_l_max := Some 4, kw_other := [''decay'']\<rparr>) fresh)
     = Inl TypeError"
proof
  have d: "map_of ADSTOCK_TRANSFORMATIONS ''delayed'' = Some DelayedAdstock"
    by (simp add: registry_entries)
  have "fits DelayedAdstock (no_kwargs\<lparr>kw_l_max := Some 12, kw_normalize := Some False\<rparr>)"
    and "kw_l_max (no_kwargs\<lparr>kw_l_max := Some 12, kw_normalize := Some False\<rparr>) = Some 12"
    and "kw_normalize (no_kwargs\<lparr>kw_l_max := Some 12, kw_normalize := Some False\<rparr>)
          = Some False"
    by (simp_all add: fits_def no_kwargs_def)
  with get_adstock_function_registered [OF d,
        of "no_kwargs\<lparr>kw_l_max := Some 12, kw_normalize := Some False\<rparr>" fresh]
  show "\<exists>obj. fst (get_adstock_function (Name ''delayed'')
              (no_kwargs\<lparr>kw_l_max := Some 12, kw_normalize := Some False\<rparr>) fresh) = Inr obj
      \<and> class_of obj = DelayedAdstock
      \<and> l_max (descriptor obj) = 12
      \<and> normalize_flag (descriptor obj) = False
      \<and> constructed (snd (get_adstock_function (Name ''delayed'')
              (no_kwargs\<lparr>kw_l_max := Some 12, kw_normalize := Some False\<rparr>) fresh)) = [obj]"
    by (auto simp: fresh_def)
  have w: "map_of ADSTOCK_TRANSFORMATIONS ''weibull'' = Some WeibullAdstock"
    by (simp add: registry_entries)
  have "\<not> fits WeibullAdstock (no_kwargs\<lparr>kw_l_max := Some 4, kw_other := [''decay'']\<rparr>)"
    by (simp add: fits_def no_kwargs_def)
  with get_adstock_function_registered [OF w,
        of "no_kwargs\<lparr>kw_l_max := Some 4, kw_other := [''decay'']\<rparr>" fresh]
  show "fst (get_adstock_function (Name ''weibull'')
          (no_kwargs\<lparr>kw_l_max := Some 4, kw_other := [''decay'']\<rparr>) fresh)
     = Inl TypeError"
    by blast
qed

subsection \<open>The deprecation warning\<close>

text \<open>
  C10, as stated, fails in its second half:
  \<^verbatim>\<open>_get_adstock_function("weibull", normalize=False)\<close> emits the warning and then
  raises the \<open>TypeError\<close> of \<^verbatim>\<open>WeibullAdstock(normalize=False)\<close>; no instance is returned.
  \<^verbatim>\<open>_get_adstock_function("delayed", l_max=5, kind=WeibullType.CDF)\<close> does the same.
\<close>

theorem deprecation_warning_counterexample:
  "get_adstock_function (Name ''weibull'') (no_kwargs\<lparr>kw_normalize := Some False\<rparr>) fresh
     = (Inl TypeError,
        \<lparr>warnings = [(DeprecationWarning, deprecation_message)], constructed = []\<rparr>)
   \<and> get_adstock_function (Name ''delayed'')
        (no_kwargs\<lparr>kw_l_max := Some 5, kw_kind := Some CDF\<rparr>) fresh
     = (Inl TypeError,
        \<lparr>warnings = [(DeprecationWarning, deprecation_message)], constructed = []\<rparr>)"
  by (simp add: registry_entries get_adstock_function_def construct_def warn_def fresh_def
      call_WeibullAdstock_init_def call_AdstockTransformation_init_def no_kwargs_def)

text \<open>
  C10, amended. \<^verbatim>\<open>_get_adstock_function\<close> emits a warning exactly when it is called with
  a name that is a key of the registry and with at least one keyword argument; the
  warning is then the one \<open>DeprecationWarning\<close> of line 279. The warning does not stop
  the call: when the keyword arguments fit the signature of the class, the call
  returns the instance it has constructed; when they do not, it raises the
  \<open>TypeError\<close> of the call of the class, after the warning, and constructs nothing.
\<close>

theorem deprecation_warning_iff:
  "(warnings (snd (get_adstock_function fn kwargs s)) \<noteq> warnings s
      \<longleftrightarrow> (\<exists>name. fn = Name name \<and> name \<in> set (map fst ADSTOCK_TRANSFORMATIONS))
          \<and> kwargs \<noteq> no_kwargs)
   \<and> (warnings (snd (get_adstock_function fn kwargs s)) \<noteq> warnings s \<longrightarrow>
        warnings (snd (get_adstock_function fn kwargs s))
          = warnings s @ [(DeprecationWarning, deprecation_message)])
   \<and> (\<forall>name cls. fn = Name name \<and> map_of ADSTOCK_TRANSFORMATIONS name = Some cls
          \<and> fits cls kwargs \<longrightarrow>
        (\<exists>obj. fst (get_adstock_function fn kwargs s) = Inr obj \<and> class_of obj = cls
           \<and> constructed (snd (get_adstock_function fn kwargs s))
               = constructed s @ [obj]))
   \<and> (\<forall>name cls. fn = Name name \<and> map_of ADSTOCK_TRANSFORMATIONS name = Some cls
          \<and> \<not> fits cls kwargs \<longrightarrow>
        fst (get_adstock_function fn kwargs s) = Inl TypeError
        \<and> constructed (snd (get_adstock_function fn kwargs s)) = constructed s
        \<and> warnings (snd (get_adstock_function fn kwargs s))
            = (if kwargs = no_kwargs then warnings s
               else warnings s @ [(DeprecationWarning, deprecation_message)]))"
proof (intro conjI allI impI)
  show "warnings (snd (get_adstock_function fn kwargs s)) \<noteq> warnings s
      \<longleftrightarrow> (\<exists>name. fn = Name name \<and> name \<in> set (map fst ADSTOCK_TRANSFORMATIONS))
          \<and> kwargs \<noteq> no_kwargs"
    by (simp add: get_warnings)
next
  assume "warnings (snd (get_adstock_function fn kwargs s)) \<noteq> warnings s"
  then show "warnings (snd (get_adstock_function fn kwargs s))
      = warnings s @ [(DeprecationWarning, deprecation_message)]"
    by (simp add: get_warnings split: if_splits)
next
  fix name cls
  assume "fn = Name name \<and> map_of ADSTOCK_TRANSFORMATIONS name = Some cls \<and> fits cls kwargs"
  then have fn: "fn = Name name" and cls: "map_of ADSTOCK_TRANSFORMATIONS name = Some cls"
    and fit: "fits cls kwargs"
    by simp_all
  from call_class_fits [OF fit] obtain obj
    where obj: "call_class cls kwargs = Inr obj" and "class_of obj = cls"
    by blast
  then have "fst (get_adstock_function fn kwargs s) = Inr obj \<and> class_of obj = cls
      \<and> constructed (snd (get_adstock_function fn kwargs s)) = constructed s @ [obj]"
    by (simp add: fn get_registered [OF cls] fst_construct constructed_construct warn_def)
  then show "\<exists>obj. fst (get_adstock_function fn kwargs s) = Inr obj \<and> class_of obj = cls
      \<and> constructed (snd (get_adstock_function fn kwargs s)) = constructed s @ [obj]"
    by (rule exI)
next
  fix name cls
  assume *: "fn = Name name \<and> map_of ADSTOCK_TRANSFORMATIONS name = Some cls
    \<and> \<not> fits cls kwargs"
  then have fn: "fn = Name name" and cls: "map_of ADSTOCK_TRANSFORMATIONS name = Some cls"
    and no: "call_class cls kwargs = Inl TypeError"
    by (simp_all add: call_class_not_fits)
  show "fst (get_adstock_function fn kwargs s) = Inl TypeError"
    by (simp add: fn get_registered [OF cls] fst_construct no)
  show "constructed (snd (get_adstock_function fn kwargs s)) = constructed s"
    by (simp add: fn get_registered [OF cls] constructed_construct no warn_def)
  from cls have "name \<in> set (map fst ADSTOCK_TRANSFORMATIONS)"
    by (metis registry_keys registry_lookup)
  then show "warnings (snd (get_adstock_function fn kwargs s))
      = (if kwargs = no_kwargs then warnings s
         else warnings s @ [(DeprecationWarning, deprecation_message)])"
    by (simp add: fn get_warnings)
qed

text \<open>
  C10 amended, at \<^verbatim>\<open>_get_adstock_function("geometric", l_max=8)\<close>, which warns and
  returns a \<^verbatim>\<open>GeometricAdstock\<close>, at \<^verbatim>\<open>_get_adstock_function("geometric")\<close>, which does
  not warn, and at \<^verbatim>\<open>_get_adstock_function("geometric", mode=ConvMode.Before)\<close>, which
  warns and raises \<open>TypeError\<close>.
\<close>

theorem deprecation_warning_iff_witness:
  "warnings (snd (get_adstock_function (Name ''geometric'')
        (no_kwargs\<lparr>kw_l_max := Some 8\<rparr>) fresh))
     = [(DeprecationWarning, deprecation_message)]
   \<and> (\<exists>obj. fst (get_adstock_function (Name ''geometric'')
        (no_kwargs\<lparr>kw_l_max := Some 8\<rparr>) fresh) = Inr obj
        \<and> class_of obj = GeometricAdstock)
   \<and> warnings (snd (get_adstock_function (Name ''geometric'') no_kwargs fresh)) = []
   \<and> fst (get_adstock_function (Name ''geometric'')
        (no_kwargs\<lparr>kw_mode := Some Before\<rparr>) fresh) = Inl TypeError
   \<and> warnings (snd (get_adstock_function (Name ''geometric'')
        (no_kwargs\<lparr>kw_mode := Some Before\<rparr>) fresh))
     = [(DeprecationWarning, deprecation_message)]"
proof -
  have key: "''geometric'' \<in> set (map fst ADSTOCK_TRANSFORMATIONS)"
    and reg: "map_of ADSTOCK_TRANSFORMATIONS ''geometric'' = Some GeometricAdstock"
    by (simp_all add: registry_entries)
  have given: "no_kwargs\<lparr>kw_l_max := Some 8\<rparr> \<noteq> no_kwargs"
    and fit: "fits GeometricAdstock (no_kwargs\<lparr>kw_l_max := Some 8\<rparr>)"
    and given': "no_kwargs\<lparr>kw_mode := Some Before\<rparr> \<noteq> no_kwargs"
    and unfit: "\<not> fits GeometricAdstock (no_kwargs\<lparr>kw_mode := Some Before\<rparr>)"
    by (simp_all add: no_kwargs_def fits_def)
  from deprecation_warning_iff [of "Name ''geometric''" "no_kwargs\<lparr>kw_l_max := Some 8\<rparr>" fresh]
    key reg given fit
  have "warnings (snd (get_adstock_function (Name ''geometric'')
        (no_kwargs\<lparr>kw_l_max := Some 8\<rparr>) fresh))
     = [(DeprecationWarning, deprecation_message)]
   \<and> (\<exists>obj. fst (get_adstock_function (Name ''geometric'')
        (no_kwargs\<lparr>kw_l_max := Some 8\<rparr>) fresh) = Inr obj
        \<and> class_of obj = GeometricAdstock)"
    by (auto simp: fresh_def)
  moreover from deprecation_warning_iff [of "Name ''geometric''" no_kwargs fresh]
  have "warnings (snd (get_adstock_function (Name ''geometric'') no_kwargs fresh)) = []"
    by (simp add: fresh_def)
  moreover from deprecation_warning_iff
    [of "Name ''geometric''" "no_kwargs\<lparr>kw_mode := Some Before\<rparr>" fresh,
      THEN conjunct2, THEN conjunct2, THEN conjunct2, rule_format,
      of "''geometric''" GeometricAdstock]
    reg given' unfit
  have "fst (get_adstock_function (Name ''geometric'')
        (no_kwargs\<lparr>kw_mode := Some Before\<rparr>) fresh) = Inl TypeError
   \<and> warnings (snd (get_adstock_function (Name ''geometric'')
        (no_kwargs\<lparr>kw_mode := Some Before\<rparr>) fresh))
     = [(DeprecationWarning, deprecation_message)]"
    by (simp add: fresh_def)
  ultimately show ?thesis by simp
qed

subsection \<open>The errors of the module\<close>

text \<open>
  C1, as stated, fails in its second part: the \<open>ValueError\<close> of the lookup is not the only
  error of the module. \<^verbatim>\<open>'delayed'\<close> is a key of the registry and
  \<^verbatim>\<open>_get_adstock_function("delayed")\<close> raises \<open>TypeError\<close>, and \<^verbatim>\<open>sample_curve\<close> of an
  instance with \<open>l_max = 0\<close> raises \<open>IndexError\<close>.
\<close>

theorem only_error_condition_counterexample:
  "''delayed'' \<in> set (map fst ADSTOCK_TRANSFORMATIONS)
   \<and> get_adstock_function (Name ''delayed'') no_kwargs fresh = (Inl TypeError, fresh)
   \<and> fst (sample_curve 1000 (\<lambda>self var_name parameters x coords. Inr (var_name, x, coords))
            (AdstockTransformation_init 0 False Before None None) () (None :: real option))
       = Inl IndexError"
  by (simp add: registry_entries get_adstock_function_def construct_def
      call_AdstockTransformation_init_def no_kwargs_def sample_curve_def np_arange_def
      np_zeros_def setitem_def AdstockTransformation_init_def)

text \<open>
  C1, amended. \<^verbatim>\<open>_get_adstock_function\<close> raises \<open>ValueError\<close> exactly when its argument is
  a string that is not a key of the registry; the message then names the three keys,
  and nothing is constructed and no warning is emitted (the runtime is unchanged). It
  is the only error the helper raises by a check of its own, not the only error of the
  module: the helper fails as well with the \<open>TypeError\<close> of calling the registered class
  with keyword arguments that do not fit its signature, and in no other way, and
  \<^verbatim>\<open>sample_curve\<close> raises \<open>IndexError\<close> when \<open>l_max = 0\<close>.
\<close>

theorem unknown_name_value_error:
  "((\<exists>msg. fst (get_adstock_function fn kwargs s) = Inl (ValueError msg))
      \<longleftrightarrow> (\<exists>name. fn = Name name \<and> name \<notin> set (map fst ADSTOCK_TRANSFORMATIONS)))
   \<and> (\<forall>name. fn = Name name \<and> name \<notin> set (map fst ADSTOCK_TRANSFORMATIONS) \<longrightarrow>
        get_adstock_function fn kwargs s =
          (Inl (ValueError
             (''Unknown adstock function: '' @ name @ ''. Choose from [''
                @ [CHR 0x27] @ ''geometric'' @ [CHR 0x27] @ '', ''
                @ [CHR 0x27] @ ''delayed'' @ [CHR 0x27] @ '', ''
                @ [CHR 0x27] @ ''weibull'' @ [CHR 0x27] @ '']'')), s))
   \<and> (\<forall>e. fst (get_adstock_function fn kwargs s) = Inl e \<and> (\<forall>msg. e \<noteq> ValueError msg) \<longrightarrow>
        e = TypeError
        \<and> (\<exists>name cls. fn = Name name \<and> map_of ADSTOCK_TRANSFORMATIONS name = Some cls
              \<and> \<not> fits cls kwargs))
   \<and> (\<forall>name cls. fn = Name name \<and> map_of ADSTOCK_TRANSFORMATIONS name = Some cls
          \<and> \<not> fits cls kwargs \<longrightarrow>
        fst (get_adstock_function fn kwargs s) = Inl TypeError)
   \<and> (l_max self = 0 \<longrightarrow>
        fst (sample_curve capacity base_sample_curve self parameters amount) = Inl IndexError)"
proof (cases fn)
  case (Instance obj)
  then show ?thesis
    by (simp add: get_adstock_function_def sample_curve_zero)
next
  case (Name name)
  show ?thesis
  proof (cases "name \<in> set (map fst ADSTOCK_TRANSFORMATIONS)")
    case False
    then have "map_of ADSTOCK_TRANSFORMATIONS name = None"
      by (simp add: map_of_eq_None_iff)
    with False Name show ?thesis
      by (simp add: get_unregistered unknown_message_text sample_curve_zero)
  next
    case True
    then obtain cls where cls: "map_of ADSTOCK_TRANSFORMATIONS name = Some cls"
      by (metis registry_keys registry_lookup)
    have r: "fst (get_adstock_function (Name name) kwargs s) = call_class cls kwargs"
      by (simp add: get_registered [OF cls] fst_construct)
    have "e = TypeError \<and> \<not> fits cls kwargs" if "call_class cls kwargs = Inl e" for e
      using that call_class_error [OF that] call_class_fits [of cls kwargs] by auto
    moreover have "call_class cls kwargs = Inl TypeError" if "\<not> fits cls kwargs"
      using that by (rule call_class_not_fits)
    ultimately show ?thesis
      using Name True cls r by (auto simp: sample_curve_zero)
  qed
qed

text \<open>
  C1 amended, at \<^verbatim>\<open>_get_adstock_function("logistic", l_max=4)\<close>, an unknown name, at
  \<^verbatim>\<open>_get_adstock_function("weibull", mode=ConvMode.Before)\<close>, whose error is the
  \<open>TypeError\<close> of the class, and at \<^verbatim>\<open>sample_curve\<close> with \<open>l_max = 0\<close>.
\<close>

theorem unknown_name_value_error_witness:
  "get_adstock_function (Name ''logistic'') (no_kwargs\<lparr>kw_l_max := Some 4\<rparr>) fresh =
     (Inl (ValueError
        (''Unknown adstock function: logistic. Choose from [''
           @ [CHR 0x27] @ ''geometric'' @ [CHR 0x27] @ '', ''
           @ [CHR 0x27] @ ''delayed'' @ [CHR 0x27] @ '', ''
           @ [CHR 0x27] @ ''weibull'' @ [CHR 0x27] @ '']'')), fresh)
   \<and> fst (get_adstock_function (Name ''weibull'') (no_kwargs\<lparr>kw_mode := Some Before\<rparr>) fresh)
       = Inl TypeError
   \<and> fst (sample_curve 1000 (\<lambda>self var_name parameters x coords. Inr (var_name, x, coords))
            (AdstockTransformation_init 0 True After None None) () (Some (3::real)))
       = Inl IndexError"
proof -
  have "''logistic'' \<notin> set (map fst ADSTOCK_TRANSFORMATIONS)"
    by (simp add: registry_entries)
  with unknown_name_value_error
    [of "Name ''logistic''" "no_kwargs\<lparr>kw_l_max := Some 4\<rparr>" fresh
      "AdstockTransformation_init 0 True After None None" 1000
      "\<lambda>self var_name parameters x coords. Inr (var_name, x, coords)" "()"
      "Some (3::real)"]
  have 1: "get_adstock_function (Name ''logistic'') (no_kwargs\<lparr>kw_l_max := Some 4\<rparr>) fresh =
     (Inl (ValueError
        (''Unknown adstock function: logistic. Choose from [''
           @ [CHR 0x27] @ ''geometric'' @ [CHR 0x27] @ '', ''
           @ [CHR 0x27] @ ''delayed'' @ [CHR 0x27] @ '', ''
           @ [CHR 0x27] @ ''weibull'' @ [CHR 0x27] @ '']'')), fresh)"
    by simp
  have "map_of ADSTOCK_TRANSFORMATIONS ''weibull'' = Some WeibullAdstock"
    and "\<not> fits WeibullAdstock (no_kwargs\<lparr>kw_mode := Some Before\<rparr>)"
    and "l_max (AdstockTransformation_init 0 True After None None) = 0"
    by (simp_all add: registry_entries fits_def no_kwargs_def AdstockTransformation_init_def)
  with unknown_name_value_error
    [of "Name ''weibull''" "no_kwargs\<lparr>kw_mode := Some Before\<rparr>" fresh
      "AdstockTransformation_init 0 True After None None" 1000
      "\<lambda>self var_name parameters x coords. Inr (var_name, x, coords)" "()"
      "Some (3::real)"]
  have 2: "fst (get_adstock_function (Name ''weibull'') (no_kwargs\<lparr>kw_mode := Some Before\<rparr>) fresh)
       = Inl TypeError
   \<and> fst (sample_curve 1000 (\<lambda>self var_name parameters x coords. Inr (var_name, x, coords))
            (AdstockTransformation_init 0 True After None None) () (Some (3::real)))
       = Inl IndexError"
    by blast
  from 1 2 show ?thesis by simp
qed

subsection \<open>The attributes of an instance\<close>

text \<open>
  C7. The two initialisers store the arguments they are given as \<^verbatim>\<open>l_max\<close>, \<^verbatim>\<open>normalize\<close>,
  \<^verbatim>\<open>mode\<close> and, for \<^verbatim>\<open>WeibullAdstock\<close>, \<^verbatim>\<open>kind\<close>. The three \<^verbatim>\<open>function\<close> methods and
  \<^verbatim>\<open>sample_curve\<close> leave their receiver as it was; \<^verbatim>\<open>_get_adstock_function\<close> returns a
  given instance as it is and leaves every object constructed before the call as it
  was.
\<close>

theorem descriptor_fields_frame:
  "l_max (AdstockTransformation_init l n m p pf) = l
   \<and> normalize_flag (AdstockTransformation_init l n m p pf) = n
   \<and> mode (AdstockTransformation_init l n m p pf) = m
   \<and> l_max (WeibullAdstock_init l n k m p pf) = l
   \<and> normalize_flag (WeibullAdstock_init l n k m p pf) = n
   \<and> mode (WeibullAdstock_init l n k m p pf) = m
   \<and> kind (WeibullAdstock_init l n k m p pf) = k
   \<and> snd (GeometricAdstock_function self x alpha) = self
   \<and> snd (DelayedAdstock_function self x alpha theta) = self
   \<and> snd (WeibullAdstock_function wself x lam k') = wself
   \<and> snd (sample_curve capacity base_sample_curve rself parameters amount) = rself
   \<and> fst (get_adstock_function (Instance obj) kwargs s) = Inr obj
   \<and> take (length (constructed s)) (constructed (snd (get_adstock_function fn kwargs s)))
       = constructed s"
proof -
  have init: "l_max (AdstockTransformation_init l n m p pf) = l
   \<and> normalize_flag (AdstockTransformation_init l n m p pf) = n
   \<and> mode (AdstockTransformation_init l n m p pf) = m"
    by (simp add: AdstockTransformation_init_def)
  have winit: "l_max (WeibullAdstock_init l n k m p pf) = l
   \<and> normalize_flag (WeibullAdstock_init l n k m p pf) = n
   \<and> mode (WeibullAdstock_init l n k m p pf) = m
   \<and> kind (WeibullAdstock_init l n k m p pf) = k"
    by (simp add: WeibullAdstock_init_def AdstockTransformation_init_def
        AdstockTransformation.extend_def WeibullAdstock_obj.fields_def)
  have methods: "snd (GeometricAdstock_function self x alpha) = self
   \<and> snd (DelayedAdstock_function self x alpha theta) = self
   \<and> snd (WeibullAdstock_function wself x lam k') = wself"
    by (simp add: GeometricAdstock_function_def DelayedAdstock_function_def
        WeibullAdstock_function_def)
  have curve: "snd (sample_curve capacity base_sample_curve rself parameters amount) = rself"
    by (simp add: sample_curve_def Let_def split: sum.splits)
  have inst: "fst (get_adstock_function (Instance obj) kwargs s) = Inr obj"
    by (simp add: get_adstock_function_def)
  have grow: "take (length (constructed s))
      (constructed (snd (get_adstock_function fn kwargs s))) = constructed s"
  proof (cases fn)
    case (Instance obj')
    then show ?thesis by (simp add: get_adstock_function_def)
  next
    case (Name name)
    show ?thesis
    proof (cases "map_of ADSTOCK_TRANSFORMATIONS name")
      case None
      then have "name \<notin> set (map fst ADSTOCK_TRANSFORMATIONS)"
        by (simp add: map_of_eq_None_iff)
      with Name show ?thesis by (simp add: get_unregistered)
    next
      case (Some cls)
      with Name show ?thesis
        by (simp add: get_registered constructed_construct warn_def)
    qed
  qed
  from init winit methods curve inst grow show ?thesis by blast
qed

subsection \<open>What the three \<open>function\<close> methods pass on\<close>

text \<open>
  C2. \<^verbatim>\<open>GeometricAdstock.function\<close> and \<^verbatim>\<open>DelayedAdstock.function\<close> call their routine
  with the stored \<^verbatim>\<open>l_max\<close>, \<^verbatim>\<open>normalize\<close> and \<^verbatim>\<open>mode\<close>. \<^verbatim>\<open>WeibullAdstock.function\<close> calls
  \<^verbatim>\<open>weibull_adstock\<close> with the stored \<^verbatim>\<open>l_max\<close>, \<^verbatim>\<open>mode\<close> and \<^verbatim>\<open>kind\<close> only: the stored
  \<^verbatim>\<open>normalize\<close> is not passed on, so \<^verbatim>\<open>WeibullAdstock(l_max=10, normalize=True)\<close> and
  \<^verbatim>\<open>WeibullAdstock(l_max=10, normalize=False)\<close> make the same call.
\<close>

theorem WeibullAdstock_function_drops_normalize:
  "fst (GeometricAdstock_function self x alpha)
     = geometric_adstock x alpha (l_max self) (normalize_flag self) (mode self)
   \<and> fst (DelayedAdstock_function self x alpha theta)
     = delayed_adstock x alpha theta (l_max self) (normalize_flag self) (mode self)
   \<and> fst (WeibullAdstock_function wself x lam k)
     = weibull_adstock x lam k (l_max wself) (mode wself) (kind wself)
   \<and> fst (WeibullAdstock_function (WeibullAdstock_init 10 True PDF After None None) x lam k)
     = fst (WeibullAdstock_function (WeibullAdstock_init 10 False PDF After None None) x lam k)"
  by (simp add: GeometricAdstock_function_def DelayedAdstock_function_def
      WeibullAdstock_function_def WeibullAdstock_init_def AdstockTransformation_init_def
      AdstockTransformation.extend_def WeibullAdstock_obj.fields_def)

end
